theory Spec2Isabelle
  imports Complex_Main "HOL-Library.Word"
begin

section \<open>Quantities, resource lists and the job description\<close>

text \<open>
  A \<^verbatim>\<open>resource.Quantity\<close> is an exact decimal number; only its numeric value matters
  for the scheduler code, and \<^verbatim>\<open>Quantity.Add\<close> is exact addition. A
  \<^verbatim>\<open>corev1.ResourceList\<close> is a Go map from resource names to quantities.
\<close>

type_synonym Quantity = rat
type_synonym ResourceName = string
type_synonym ResourceList = "ResourceName \<rightharpoonup> Quantity"

definition ResourceCPU :: ResourceName where
  "ResourceCPU = ''cpu''"

definition ResourceMemory :: ResourceName where
  "ResourceMemory = ''memory''"

text \<open>
  The two library functions that \<^verbatim>\<open>volcano_scheduler.go\<close> calls on field values are
  taken as parameters: \<^verbatim>\<open>resource.ParseQuantity\<close> (\<open>None\<close> stands for a returned
  error) and \<^verbatim>\<open>fmt.Sprintf("%f", _)\<close> on a \<^verbatim>\<open>float32\<close>, which is represented by the
  number it denotes.
\<close>

type_synonym float32 = rat
type_synonym int32 = "32 word"

record Lib =
  ParseQuantity :: "string \<Rightarrow> Quantity option"
  Sprintf_f :: "float32 \<Rightarrow> string"

text \<open>
  Modelled from the spec: the \<^verbatim>\<open>v1beta1\<close> type declarations are not among the sources;
  the spec's RoleSpec lists \<^verbatim>\<open>cores\<close>, \<^verbatim>\<open>coreRequest\<close>, \<^verbatim>\<open>coreLimit\<close>,
  \<^verbatim>\<open>memory\<close>, \<^verbatim>\<open>memoryOverhead\<close>, \<^verbatim>\<open>instances\<close> and \<^verbatim>\<open>annotations\<close> for a role,
  and its JobSpec lists name, namespace, uid, mode, driver and executor. Only the fields
  read by the scheduler code are kept. A Go pointer field is an \<open>option\<close> (\<open>None\<close> is
  \<^verbatim>\<open>nil\<close>), and so is the annotation map, which may be the \<^verbatim>\<open>nil\<close> map.
\<close>

record RoleSpec =
  Cores :: "float32 option"
  CoreRequest :: "string option"
  CoreLimit :: "string option"
  Memory :: "string option"
  MemoryOverhead :: "string option"
  Instances :: "int32 option"
  Annotations :: "(string \<rightharpoonup> string) option"

record SparkApplication =
  Name :: string
  Namespace :: string
  UID :: string
  Mode :: string
  Driver :: RoleSpec
  Executor :: RoleSpec

definition ClusterMode :: string where
  "ClusterMode = ''cluster''"

definition ClientMode :: string where
  "ClientMode = ''client''"

definition GroupNameAnnotationKey :: string where
  "GroupNameAnnotationKey = ''scheduling.k8s.io/group-name''"

section \<open>The resource aggregator\<close>

text \<open>
  \<^verbatim>\<open>sumResourceList\<close>: the inner loop ranges over the entries of one map and touches
  only the total's entry of the same name, so its effect is given name by name.
\<close>

definition addResourceList :: "ResourceList \<Rightarrow> ResourceList \<Rightarrow> ResourceList" where
  "addResourceList totalResource l =
     (\<lambda>name. case l name of
        None \<Rightarrow> totalResource name
      | Some quantity \<Rightarrow>
          (case totalResource name of
             None \<Rightarrow> Some quantity
           | Some value \<Rightarrow> Some (value + quantity)))"

definition sumResourceList :: "ResourceList list \<Rightarrow> ResourceList" where
  "sumResourceList list = foldl addResourceList Map.empty list"

text \<open>
  The first part of \<^verbatim>\<open>getExecutorRequestResource\<close> (up to the memory overhead): the
  local \<^verbatim>\<open>minResource\<close> of one executor instance.
\<close>

definition executorMinResource :: "Lib \<Rightarrow> SparkApplication \<Rightarrow> ResourceList" where
  "executorMinResource L app =
     (let minResource0 = Map.empty;
          minResource1 =
            (case CoreRequest (Executor app) of
               None \<Rightarrow> minResource0
             | Some s \<Rightarrow>
                 (case ParseQuantity L s of
                    Some value \<Rightarrow> minResource0(ResourceCPU \<mapsto> value)
                  | None \<Rightarrow> minResource0));
          minResource2 =
            (case Cores (Executor app) of
               None \<Rightarrow> minResource1
             | Some f \<Rightarrow>
                 if minResource1 ResourceCPU = None then
                   (case ParseQuantity L (Sprintf_f L f) of
                      Some value \<Rightarrow> minResource1(ResourceCPU \<mapsto> value)
                    | None \<Rightarrow> minResource1)
                 else minResource1);
          minResource3 =
            (case CoreLimit (Executor app) of
               None \<Rightarrow> minResource2
             | Some s \<Rightarrow>
                 if minResource2 ResourceCPU = None then
                   (case ParseQuantity L s of
                      Some value \<Rightarrow> minResource2(ResourceCPU \<mapsto> value)
                    | None \<Rightarrow> minResource2)
                 else minResource2);
          minResource4 =
            (case Memory (Executor app) of
               None \<Rightarrow> minResource3
             | Some s \<Rightarrow>
                 (case ParseQuantity L s of
                    Some value \<Rightarrow> minResource3(ResourceMemory \<mapsto> value)
                  | None \<Rightarrow> minResource3));
          minResource5 =
            (case MemoryOverhead (Executor app) of
               None \<Rightarrow> minResource4
             | Some s \<Rightarrow>
                 (case ParseQuantity L s of
                    Some value \<Rightarrow>
                      (case minResource4 ResourceMemory of
                         Some existing \<Rightarrow> minResource4(ResourceMemory \<mapsto> existing + value)
                       | None \<Rightarrow> minResource4)
                  | None \<Rightarrow> minResource4))
      in minResource5)"

text \<open>
  The loop \<^verbatim>\<open>for i := int32(0); i < *Instances; i++\<close> appending \<^verbatim>\<open>minResource\<close> to
  \<^verbatim>\<open>resourceList\<close>; the counter is a 32-bit word compared as a signed integer.
\<close>

function appendInstances ::
  "int32 \<Rightarrow> int32 \<Rightarrow> ResourceList \<Rightarrow> ResourceList list \<Rightarrow> ResourceList list" where
  "appendInstances i n minResource resourceList =
     (if i <s n then appendInstances (i + 1) n minResource (resourceList @ [minResource])
      else resourceList)"
  by pat_completeness auto

termination
proof (relation "measure (\<lambda>(i, n, minResource, resourceList). nat (sint n - sint i))")
  show "wf (measure (\<lambda>(i, n, minResource, resourceList). nat (sint n - sint i)))"
    by simp
next
  fix i n :: int32 and minResource :: ResourceList and resourceList :: "ResourceList list"
  assume lt: "i <s n"
  have "sint i < sint n"
    using lt by (simp add: word_sless_alt)
  moreover have "sint n < 2 ^ 31"
    using sint_lt [of n] by simp
  ultimately have "sint (i + 1) = sint i + 1"
    using sint_ge [of i] by (simp add: sint_word_add signed_take_bit_int_eq_self)
  then show "((i + 1, n, minResource, resourceList @ [minResource]), (i, n, minResource, resourceList))
      \<in> measure (\<lambda>(i, n, minResource, resourceList). nat (sint n - sint i))"
    using \<open>sint i < sint n\<close> by simp
qed

declare appendInstances.simps [simp del]

datatype panic = NilPointerDereference | AssignmentToNilMap

text \<open>
  \<^verbatim>\<open>getExecutorRequestResource\<close>: the loop condition reads \<^verbatim>\<open>*app.Spec.Executor.Instances\<close>
  with no check of the pointer, so a \<^verbatim>\<open>nil\<close> pointer panics there (\<open>Inl\<close>).
\<close>

definition getExecutorRequestResource :: "Lib \<Rightarrow> SparkApplication \<Rightarrow> panic + ResourceList" where
  "getExecutorRequestResource L app =
     (let minResource = executorMinResource L app;
          resourceList = [Map.empty]
      in case Instances (Executor app) of
           None \<Rightarrow> Inl NilPointerDereference
         | Some n \<Rightarrow> Inr (sumResourceList (appendInstances 0 n minResource resourceList)))"

definition getDriverRequestResource :: "Lib \<Rightarrow> SparkApplication \<Rightarrow> ResourceList" where
  "getDriverRequestResource L app =
     (let minResource0 = Map.empty;
          minResource1 =
            (case Cores (Driver app) of
               None \<Rightarrow> minResource0
             | Some f \<Rightarrow>
                 (case ParseQuantity L (Sprintf_f L f) of
                    Some value \<Rightarrow> minResource0(ResourceCPU \<mapsto> value)
                  | None \<Rightarrow> minResource0));
          minResource2 =
            (case CoreLimit (Driver app) of
               None \<Rightarrow> minResource1
             | Some s \<Rightarrow>
                 if minResource1 ResourceCPU = None then
                   (case ParseQuantity L s of
                      Some value \<Rightarrow> minResource1(ResourceCPU \<mapsto> value)
                    | None \<Rightarrow> minResource1)
                 else minResource1);
          minResource3 =
            (case Memory (Driver app) of
               None \<Rightarrow> minResource2
             | Some s \<Rightarrow>
                 (case ParseQuantity L s of
                    Some value \<Rightarrow> minResource2(ResourceMemory \<mapsto> value)
                  | None \<Rightarrow> minResource2));
          minResource4 =
            (case MemoryOverhead (Driver app) of
               None \<Rightarrow> minResource3
             | Some s \<Rightarrow>
                 (case ParseQuantity L s of
                    Some value \<Rightarrow>
                      (case minResource3 ResourceMemory of
                         Some existing \<Rightarrow> minResource3(ResourceMemory \<mapsto> existing + value)
                       | None \<Rightarrow> minResource3)
                  | None \<Rightarrow> minResource3))
      in minResource4)"

section \<open>The gang-scheduling coordinator\<close>

text \<open>
  The objects exchanged with the cluster API. \<^verbatim>\<open>v1.NewControllerRef\<close> builds the owner
  reference of a controller; \<^verbatim>\<open>MinResources\<close> is a pointer in \<^verbatim>\<open>PodGroupSpec\<close>.
\<close>

record OwnerReference =
  refAPIVersion :: string
  refKind :: string
  refName :: string
  refUID :: string
  refController :: "bool option"
  refBlockOwnerDeletion :: "bool option"

record PodGroup =
  pgNamespace :: string
  pgName :: string
  pgOwnerReferences :: "OwnerReference list"
  MinMember :: int32
  MinResources :: "ResourceList option"

definition NewControllerRef :: "SparkApplication \<Rightarrow> string \<Rightarrow> string \<Rightarrow> OwnerReference" where
  "NewControllerRef owner groupVersion kind =
     \<lparr>refAPIVersion = groupVersion, refKind = kind, refName = Name owner, refUID = UID owner,
      refController = Some True, refBlockOwnerDeletion = Some True\<rparr>"

definition SchemeGroupVersion :: string where
  "SchemeGroupVersion = ''sparkoperator.k8s.io/v1beta1''"

text \<open>
  The errors of the cluster API and the \<^verbatim>\<open>error\<close> values the coordinator returns: an API
  error handed on as it is, or the one built by \<^verbatim>\<open>fmt.Errorf\<close> in \<^verbatim>\<open>syncPodGroup\<close>
  around the value of its variable \<^verbatim>\<open>err\<close> (\<open>None\<close> when that variable is \<^verbatim>\<open>nil\<close>).
\<close>

datatype StatusError = NotFound | AlreadyExists | OtherStatus string

definition IsNotFound :: "StatusError \<Rightarrow> bool" where
  "IsNotFound err = (err = NotFound)"

datatype error = ApiError StatusError | FailedToSyncPodGroup "StatusError option"

text \<open>
  The typed client \<^verbatim>\<open>volcanoClient.SchedulingV1alpha2().PodGroups(namespace)\<close> is a parameter:
  three operations on a cluster state \<open>'c\<close>, each returning its result (\<open>Inl\<close> an error) and the
  state after the call.
\<close>

record 'c PodGroupInterface =
  Get :: "string \<Rightarrow> string \<Rightarrow> 'c \<Rightarrow> (StatusError + PodGroup) \<times> 'c"
  Create :: "string \<Rightarrow> PodGroup \<Rightarrow> 'c \<Rightarrow> (StatusError + PodGroup) \<times> 'c"
  Update :: "string \<Rightarrow> PodGroup \<Rightarrow> 'c \<Rightarrow> (StatusError + PodGroup) \<times> 'c"

definition getAppPodGroupName :: "SparkApplication \<Rightarrow> string" where
  "getAppPodGroupName app = ''spark-'' @ Name app @ ''-pg''"

text \<open>
  \<^verbatim>\<open>syncPodGroup\<close>. The function declares \<^verbatim>\<open>var err error\<close>; the \<^verbatim>\<open>if pg, err := ...\<close>
  statement declares a second \<^verbatim>\<open>err\<close> for its two branches, and the results of Create and
  Update are assigned to that inner variable (\<open>errInner\<close>). The final \<^verbatim>\<open>return fmt.Errorf(...)\<close>
  is outside the statement, has no condition and formats the outer variable.
\<close>

definition errorOf :: "StatusError + PodGroup \<Rightarrow> StatusError option" where
  "errorOf r = (case r of Inl e \<Rightarrow> Some e | Inr pg \<Rightarrow> None)"

definition syncPodGroup ::
  "'c PodGroupInterface \<Rightarrow> SparkApplication \<Rightarrow> int32 \<Rightarrow> ResourceList \<Rightarrow> 'c \<Rightarrow> error option \<times> 'c" where
  "syncPodGroup v app size' minResource c =
     (let err = (None :: StatusError option);
          podGroupName = getAppPodGroupName app
      in case Get v (Namespace app) podGroupName c of
           (Inl errInner, c1) \<Rightarrow>
             if \<not> IsNotFound errInner then (Some (ApiError errInner), c1)
             else
               let podGroup =
                     \<lparr>pgNamespace = Namespace app, pgName = podGroupName,
                      pgOwnerReferences = [NewControllerRef app SchemeGroupVersion ''SparkApplication''],
                      MinMember = size', MinResources = Some minResource\<rparr>;
                   (r, c2) = Create v (Namespace app) podGroup c1;
                   errInner = errorOf r
               in (Some (FailedToSyncPodGroup err), c2)
         | (Inr pg, c1) \<Rightarrow>
             if MinMember pg \<noteq> size' then
               let pg' = pg\<lparr>MinMember := size'\<rparr>;
                   (r, c2) = Update v (Namespace app) pg' c1;
                   errInner = errorOf r
               in (Some (FailedToSyncPodGroup err), c2)
             else (Some (FailedToSyncPodGroup err), c1))"

text \<open>
  Reading a key of a possibly \<^verbatim>\<open>nil\<close> map gives "absent"; assigning into the \<^verbatim>\<open>nil\<close> map
  panics.
\<close>

definition lookupAnnotation :: "(string \<rightharpoonup> string) option \<Rightarrow> string \<Rightarrow> string option" where
  "lookupAnnotation m k = (case m of None \<Rightarrow> None | Some f \<Rightarrow> f k)"

definition assignAnnotation ::
  "(string \<rightharpoonup> string) option \<Rightarrow> string \<Rightarrow> string \<Rightarrow> panic + (string \<rightharpoonup> string) option" where
  "assignAnnotation m k x =
     (case m of None \<Rightarrow> Inl AssignmentToNilMap | Some f \<Rightarrow> Inr (Some (f(k \<mapsto> x))))"

text \<open>
  The two mode functions return a Go pair (application pointer, error), or panic; the cluster
  state after the call comes with it. Arguments are evaluated before the call, so the
  executor's resources are computed before \<^verbatim>\<open>syncPodGroup\<close> runs.
\<close>

type_synonym 'c scheduled = "(panic + (SparkApplication option \<times> error option)) \<times> 'c"

definition syncPodGroupInClientMode ::
  "Lib \<Rightarrow> 'c PodGroupInterface \<Rightarrow> SparkApplication \<Rightarrow> 'c \<Rightarrow> 'c scheduled" where
  "syncPodGroupInClientMode L v app c =
     (let newApp = app
      in case lookupAnnotation (Annotations (Executor newApp)) GroupNameAnnotationKey of
           None \<Rightarrow>
             (case getExecutorRequestResource L app of
                Inl p \<Rightarrow> (Inl p, c)
              | Inr minResource \<Rightarrow>
                  (case syncPodGroup v newApp 1 minResource c of
                     (None, c') \<Rightarrow>
                       (case assignAnnotation (Annotations (Executor newApp)) GroupNameAnnotationKey
                               (getAppPodGroupName newApp) of
                          Inl p \<Rightarrow> (Inl p, c')
                        | Inr m \<Rightarrow>
                            (Inr (Some (newApp\<lparr>Executor := (Executor newApp)\<lparr>Annotations := m\<rparr>\<rparr>), None),
                             c'))
                   | (Some err, c') \<Rightarrow> (Inr (None, Some err), c')))
         | Some groupName \<Rightarrow> (Inr (Some newApp, None), c))"

definition syncPodGroupInClusterMode ::
  "Lib \<Rightarrow> 'c PodGroupInterface \<Rightarrow> SparkApplication \<Rightarrow> 'c \<Rightarrow> 'c scheduled" where
  "syncPodGroupInClusterMode L v app c =
     (case lookupAnnotation (Annotations (Driver app)) GroupNameAnnotationKey of
        None \<Rightarrow>
          (case getExecutorRequestResource L app of
             Inl p \<Rightarrow> (Inl p, c)
           | Inr executorResource \<Rightarrow>
               (let totalResource = sumResourceList [executorResource, getDriverRequestResource L app]
                in case syncPodGroup v app 1 totalResource c of
                     (None, c') \<Rightarrow>
                       (case assignAnnotation (Annotations (Executor app)) GroupNameAnnotationKey
                               (getAppPodGroupName app) of
                          Inl p \<Rightarrow> (Inl p, c')
                        | Inr me \<Rightarrow>
                            (let app1 = app\<lparr>Executor := (Executor app)\<lparr>Annotations := me\<rparr>\<rparr>
                             in case assignAnnotation (Annotations (Driver app1)) GroupNameAnnotationKey
                                       (getAppPodGroupName app1) of
                                  Inl p \<Rightarrow> (Inl p, c')
                                | Inr md \<Rightarrow>
                                    (Inr (Some (app1\<lparr>Driver := (Driver app1)\<lparr>Annotations := md\<rparr>\<rparr>),
                                          None), c')))
                   | (Some err, c') \<Rightarrow> (Inr (None, Some err), c')))
      | Some groupName \<Rightarrow> (Inr (Some app, None), c))"

text \<open>
  \<^verbatim>\<open>DoBatchSchedulingOnSubmission\<close> works on a deep copy, so the caller's application is the
  unchanged argument; \<open>ensureAnnotations\<close> is its first two statements, which replace a
  \<^verbatim>\<open>nil\<close> annotation map by an empty one.
\<close>

definition ensureAnnotations :: "SparkApplication \<Rightarrow> SparkApplication" where
  "ensureAnnotations app =
     (let newApp = app;
          newApp1 =
            (if Annotations (Executor newApp) = None
             then newApp\<lparr>Executor := (Executor newApp)\<lparr>Annotations := Some Map.empty\<rparr>\<rparr>
             else newApp);
          newApp2 =
            (if Annotations (Driver newApp1) = None
             then newApp1\<lparr>Driver := (Driver newApp1)\<lparr>Annotations := Some Map.empty\<rparr>\<rparr>
             else newApp1)
      in newApp2)"

definition DoBatchSchedulingOnSubmission ::
  "Lib \<Rightarrow> 'c PodGroupInterface \<Rightarrow> SparkApplication \<Rightarrow> 'c \<Rightarrow> 'c scheduled" where
  "DoBatchSchedulingOnSubmission L v app c =
     (let newApp = ensureAnnotations app
      in if Mode newApp = ClientMode then syncPodGroupInClientMode L v newApp c
         else if Mode newApp = ClusterMode then syncPodGroupInClusterMode L v newApp c
         else (Inr (Some newApp, None), c))"

section \<open>The pod mutation engine: owner references\<close>

text \<open>
  Modelled from the spec: \<^verbatim>\<open>patchSparkPod\<close> and its owner-reference rule live in
  \<^verbatim>\<open>patch.go\<close>, which is not among the sources (only \<^verbatim>\<open>patch_test.go\<close> is). The spec
  gives a patch operation as an operation kind, a path into the pod document and a value,
  and the rule "always append a reference to the job, regardless of any pre-existing
  references (additive, never replaces)". Only the owner-reference list of the pod and the
  operation on it are modelled; \<^verbatim>\<open>getModifiedPod\<close> is the test's helper, which applies the
  operations in order.
\<close>

record Pod =
  podName :: string
  podOwnerReferences :: "OwnerReference list"

datatype PatchKind = Add | Replace

record patchOperation =
  Op :: PatchKind
  Path :: string
  Value :: OwnerReference

definition jobOwnerReference :: "SparkApplication \<Rightarrow> OwnerReference" where
  "jobOwnerReference app =
     \<lparr>refAPIVersion = SchemeGroupVersion, refKind = ''SparkApplication'', refName = Name app,
      refUID = UID app, refController = Some True, refBlockOwnerDeletion = None\<rparr>"

definition addOwnerReference :: "Pod \<Rightarrow> SparkApplication \<Rightarrow> patchOperation" where
  "addOwnerReference pod app =
     \<lparr>Op = Add, Path = ''/metadata/ownerReferences/-'', Value = jobOwnerReference app\<rparr>"

definition patchSparkPod :: "Pod \<Rightarrow> SparkApplication \<Rightarrow> patchOperation list" where
  "patchSparkPod pod app = [addOwnerReference pod app]"

definition applyPatchOperation :: "Pod \<Rightarrow> patchOperation \<Rightarrow> Pod" where
  "applyPatchOperation pod p =
     (if Op p = Add \<and> Path p = ''/metadata/ownerReferences/-''
      then pod\<lparr>podOwnerReferences := podOwnerReferences pod @ [Value p]\<rparr>
      else pod)"

definition getModifiedPod :: "Pod \<Rightarrow> SparkApplication \<Rightarrow> Pod" where
  "getModifiedPod pod app = foldl applyPatchOperation pod (patchSparkPod pod app)"

section \<open>Concrete collaborators for the examples\<close>

text \<open>
  A stand-in for the quantity parser on unsigned decimal strings with an optional fraction
  and one of the suffixes below, and for \<^verbatim>\<open>%f\<close> formatting (six decimals). They are used
  only to run the functions on concrete jobs; the general theorems hold for every
  \<open>Lib\<close>. The stand-ins leave the library's corner cases aside: a signed string is
  not parsed, a value below one nano-unit is kept rather than rounded up, there is no cap
  at the largest quantity, and an exact tie in the seventh decimal is rounded up rather
  than to even. No example below has such a field.
\<close>

definition isDigit :: "char \<Rightarrow> bool" where
  "isDigit ch = (ch \<in> set ''0123456789'')"

fun decimalValue :: "nat \<Rightarrow> string \<Rightarrow> nat" where
  "decimalValue acc [] = acc"
| "decimalValue acc (ch # rest) = decimalValue (10 * acc + (of_char ch - 48)) rest"

definition suffixMultiplier :: "string \<Rightarrow> rat option" where
  "suffixMultiplier suf =
     (if suf = [] then Some 1
      else if suf = ''m'' then Some (1 / 1000)
      else if suf = ''k'' then Some 1000
      else if suf = ''M'' then Some 1000000
      else if suf = ''G'' then Some 1000000000
      else if suf = ''Ki'' then Some 1024
      else if suf = ''Mi'' then Some (1024 * 1024)
      else if suf = ''Gi'' then Some (1024 * 1024 * 1024)
      else None)"

definition exampleParseQuantity :: "string \<Rightarrow> Quantity option" where
  "exampleParseQuantity str =
     (let whole = takeWhile isDigit str;
          rest = dropWhile isDigit str;
          frac = (case rest of [] \<Rightarrow> [] | ch # t \<Rightarrow> if ch = CHR ''.'' then takeWhile isDigit t else []);
          suf = (case rest of [] \<Rightarrow> [] | ch # t \<Rightarrow> if ch = CHR ''.'' then dropWhile isDigit t else rest)
      in if whole = [] \<and> frac = [] then None
         else case suffixMultiplier suf of
                None \<Rightarrow> None
              | Some m \<Rightarrow>
                  Some ((of_nat (decimalValue 0 whole)
                         + of_nat (decimalValue 0 frac) / 10 ^ length frac) * m))"

definition digitChar :: "nat \<Rightarrow> char" where
  "digitChar d = ''0123456789'' ! d"

fun natString :: "nat \<Rightarrow> string" where
  "natString n = (if n < 10 then [digitChar n] else natString (n div 10) @ [digitChar (n mod 10)])"

declare natString.simps [simp del]

definition exampleSprintf_f :: "float32 \<Rightarrow> string" where
  "exampleSprintf_f x =
     (let scaled = nat \<lfloor>\<bar>x\<bar> * 1000000 + 1 / 2\<rfloor>;
          frac = scaled mod 1000000
      in (if x < 0 then ''-'' else []) @ natString (scaled div 1000000) @ ''.''
           @ [digitChar (frac div 100000), digitChar (frac div 10000 mod 10),
              digitChar (frac div 1000 mod 10), digitChar (frac div 100 mod 10),
              digitChar (frac div 10 mod 10), digitChar (frac mod 10)])"

definition exampleLib :: Lib where
  "exampleLib = \<lparr>ParseQuantity = exampleParseQuantity, Sprintf_f = exampleSprintf_f\<rparr>"

text \<open>
  An in-memory cluster in the manner of a fake clientset: the stored PodGroups by namespace
  and name, the log of the requests served, and the PodGroups that other submitters are
  about to create, one of which lands after each served request.
\<close>

datatype Verb = GET | CREATE | UPDATE

record Cluster =
  objects :: "string \<times> string \<rightharpoonup> PodGroup"
  requests :: "(Verb \<times> string \<times> string) list"
  concurrent :: "PodGroup list"

definition served :: "Verb \<Rightarrow> string \<Rightarrow> string \<Rightarrow> Cluster \<Rightarrow> Cluster" where
  "served verb ns name c =
     (let c1 = c\<lparr>requests := requests c @ [(verb, ns, name)]\<rparr>
      in case concurrent c1 of
           [] \<Rightarrow> c1
         | pg # rest \<Rightarrow>
             c1\<lparr>objects := (objects c1)((pgNamespace pg, pgName pg) \<mapsto> pg), concurrent := rest\<rparr>)"

definition fakeGet :: "string \<Rightarrow> string \<Rightarrow> Cluster \<Rightarrow> (StatusError + PodGroup) \<times> Cluster" where
  "fakeGet ns name c =
     (case objects c (ns, name) of
        None \<Rightarrow> (Inl NotFound, served GET ns name c)
      | Some pg \<Rightarrow> (Inr pg, served GET ns name c))"

definition fakeCreate :: "string \<Rightarrow> PodGroup \<Rightarrow> Cluster \<Rightarrow> (StatusError + PodGroup) \<times> Cluster" where
  "fakeCreate ns pg c =
     (case objects c (ns, pgName pg) of
        Some existing \<Rightarrow> (Inl AlreadyExists, served CREATE ns (pgName pg) c)
      | None \<Rightarrow>
          (Inr pg, served CREATE ns (pgName pg) (c\<lparr>objects := (objects c)((ns, pgName pg) \<mapsto> pg)\<rparr>)))"

definition fakeUpdate :: "string \<Rightarrow> PodGroup \<Rightarrow> Cluster \<Rightarrow> (StatusError + PodGroup) \<times> Cluster" where
  "fakeUpdate ns pg c =
     (case objects c (ns, pgName pg) of
        None \<Rightarrow> (Inl NotFound, served UPDATE ns (pgName pg) c)
      | Some existing \<Rightarrow>
          (Inr pg, served UPDATE ns (pgName pg) (c\<lparr>objects := (objects c)((ns, pgName pg) \<mapsto> pg)\<rparr>)))"

definition fakeClient :: "Cluster PodGroupInterface" where
  "fakeClient = \<lparr>Get = fakeGet, Create = fakeCreate, Update = fakeUpdate\<rparr>"

text \<open>
  Example jobs: the application of \<^verbatim>\<open>docs/volcano-integration.md\<close> (cluster mode, one
  executor), an executor of three instances with 1Gi of memory each, and a role that sets
  all three CPU fields.
\<close>

definition emptyRole :: RoleSpec where
  "emptyRole =
     \<lparr>Cores = None, CoreRequest = None, CoreLimit = None, Memory = None, MemoryOverhead = None,
      Instances = None, Annotations = None\<rparr>"

definition sparkPi :: SparkApplication where
  "sparkPi =
     \<lparr>Name = ''spark-pi'', Namespace = ''default'', UID = ''uid-1'', Mode = ''cluster'',
      Driver = emptyRole\<lparr>Cores := Some (1 / 10), CoreLimit := Some ''200m'', Memory := Some ''512m''\<rparr>,
      Executor = emptyRole\<lparr>Cores := Some 1, Instances := Some 1, Memory := Some ''512m''\<rparr>\<rparr>"

definition threeExecutors :: SparkApplication where
  "threeExecutors =
     sparkPi\<lparr>Executor := emptyRole\<lparr>Instances := Some 3, Memory := Some ''1Gi''\<rparr>\<rparr>"

definition allCpuFields :: RoleSpec where
  "allCpuFields =
     emptyRole\<lparr>CoreRequest := Some ''2'', Cores := Some 4, CoreLimit := Some ''8'',
               Instances := Some 1\<rparr>"

definition fallbackJob :: SparkApplication where
  "fallbackJob = sparkPi\<lparr>Driver := allCpuFields, Executor := allCpuFields\<rparr>"

text \<open>
  Example clusters for the job \<open>sparkPi\<close>: an empty one; one that already holds the job's
  PodGroup with one member; one where a rival submission creates the PodGroup, with five
  members, right after the first request is served; and one that already holds the rival's
  PodGroup.
\<close>

definition emptyCluster :: Cluster where
  "emptyCluster = \<lparr>objects = Map.empty, requests = [], concurrent = []\<rparr>"

definition existingGroup :: PodGroup where
  "existingGroup =
     \<lparr>pgNamespace = ''default'', pgName = ''spark-spark-pi-pg'',
      pgOwnerReferences = [NewControllerRef sparkPi SchemeGroupVersion ''SparkApplication''],
      MinMember = 1, MinResources = Some Map.empty\<rparr>"

definition rivalGroup :: PodGroup where
  "rivalGroup = existingGroup\<lparr>MinMember := 5\<rparr>"

definition clusterWithGroup :: Cluster where
  "clusterWithGroup =
     emptyCluster\<lparr>objects := [(''default'', ''spark-spark-pi-pg'') \<mapsto> existingGroup]\<rparr>"

definition racingCluster :: Cluster where
  "racingCluster = emptyCluster\<lparr>concurrent := [rivalGroup]\<rparr>"

definition clusterWithRival :: Cluster where
  "clusterWithRival =
     emptyCluster\<lparr>objects := [(''default'', ''spark-spark-pi-pg'') \<mapsto> rivalGroup]\<rparr>"

definition sparkPiClient :: SparkApplication where
  "sparkPiClient = sparkPi\<lparr>Mode := ''client''\<rparr>"

text \<open>
  Further example jobs: \<open>sparkPi\<close> with the executor's instance count left unset, with
  only a memory overhead set on both roles, with three executors of 1Gi of memory and 512Mi
  of overhead each, and with the driver already annotated with its group name.
\<close>

definition noInstances :: SparkApplication where
  "noInstances = sparkPi\<lparr>Executor := (Executor sparkPi)\<lparr>Instances := None\<rparr>\<rparr>"

definition overheadOnly :: SparkApplication where
  "overheadOnly =
     sparkPi\<lparr>Driver := emptyRole\<lparr>MemoryOverhead := Some ''1Gi''\<rparr>,
             Executor := emptyRole\<lparr>MemoryOverhead := Some ''1Gi'', Instances := Some 1\<rparr>\<rparr>"

definition memoryAndOverhead :: SparkApplication where
  "memoryAndOverhead =
     sparkPi\<lparr>Executor := emptyRole\<lparr>Memory := Some ''1Gi'', MemoryOverhead := Some ''512Mi'',
                                   Instances := Some 3\<rparr>\<rparr>"

definition annotatedJob :: SparkApplication where
  "annotatedJob =
     sparkPi\<lparr>Driver := (Driver sparkPi)
       \<lparr>Annotations := Some [GroupNameAnnotationKey \<mapsto> ''spark-spark-pi-pg'']\<rparr>\<rparr>"

text \<open>The pod of \<^verbatim>\<open>TestPatchSparkPod_OwnerReference\<close>, before and after the test's append.\<close>

definition testPod :: Pod where
  "testPod = \<lparr>podName = ''spark-driver'', podOwnerReferences = []\<rparr>"

definition ownerReference1 :: OwnerReference where
  "ownerReference1 =
     \<lparr>refAPIVersion = [], refKind = [], refName = ''owner-reference1'', refUID = [],
      refController = None, refBlockOwnerDeletion = None\<rparr>"

definition testApp :: SparkApplication where
  "testApp =
     \<lparr>Name = ''spark-test'', Namespace = [], UID = ''spark-test-1'', Mode = [],
      Driver = emptyRole, Executor = emptyRole\<rparr>"

section \<open>Notions used in the statements\<close>

text \<open>
  The sum of two resource vectors as the spec words it (an absent key counts as zero), and a
  role with the group-name annotation set.
\<close>

definition plusResources :: "ResourceList \<Rightarrow> ResourceList \<Rightarrow> ResourceList" where
  "plusResources a b =
     (\<lambda>name. case a name of
        None \<Rightarrow> b name
      | Some x \<Rightarrow> (case b name of None \<Rightarrow> Some x | Some y \<Rightarrow> Some (x + y)))"

definition stamped :: "RoleSpec \<Rightarrow> string \<Rightarrow> RoleSpec" where
  "stamped role groupName =
     role\<lparr>Annotations :=
       Some ((case Annotations role of None \<Rightarrow> Map.empty | Some m \<Rightarrow> m)
              (GroupNameAnnotationKey \<mapsto> groupName))\<rparr>"

text \<open>The first candidate that is present and parsed, in the order given.\<close>

fun firstPresent :: "Quantity option list \<Rightarrow> Quantity option" where
  "firstPresent [] = None"
| "firstPresent (Some q # rest) = Some q"
| "firstPresent (None # rest) = firstPresent rest"

definition parsed :: "Lib \<Rightarrow> string option \<Rightarrow> Quantity option" where
  "parsed L field = (case field of None \<Rightarrow> None | Some s \<Rightarrow> ParseQuantity L s)"

definition formatted :: "Lib \<Rightarrow> float32 option \<Rightarrow> string option" where
  "formatted L field = (case field of None \<Rightarrow> None | Some f \<Rightarrow> Some (Sprintf_f L f))"

text \<open>
  The memory figure of one role in the spec's words: the parsed \<^verbatim>\<open>memory\<close>, with the
  parsed \<^verbatim>\<open>memoryOverhead\<close> added when there is one, and nothing without a parsed
  \<^verbatim>\<open>memory\<close>.
\<close>

definition memoryRule :: "Lib \<Rightarrow> RoleSpec \<Rightarrow> Quantity option" where
  "memoryRule L role =
     (case parsed L (Memory role) of
        None \<Rightarrow> None
      | Some m \<Rightarrow>
          (case parsed L (MemoryOverhead role) of
             None \<Rightarrow> Some m
           | Some overhead \<Rightarrow> Some (m + overhead)))"

section \<open>Properties\<close>

subsection \<open>Auxiliary facts\<close>

lemma ResourceCPU_neq_ResourceMemory: "ResourceCPU \<noteq> ResourceMemory"
  by (simp add: ResourceCPU_def ResourceMemory_def)

lemma sint_succ_below:
  fixes i n :: int32
  assumes "i <s n"
  shows "sint (i + 1) = sint i + 1"
proof -
  have "sint i < sint n"
    using assms by (simp add: word_sless_alt)
  moreover have "sint n < 2 ^ 31"
    using sint_lt [of n] by simp
  ultimately show ?thesis
    using sint_ge [of i] by (simp add: sint_word_add signed_take_bit_int_eq_self)
qed

lemma appendInstances_replicate:
  "appendInstances i n minResource resourceList =
     resourceList @ replicate (nat (sint n - sint i)) minResource"
proof (induction i n minResource resourceList rule: appendInstances.induct)
  case (1 i n minResource resourceList)
  show ?case
  proof (cases "i <s n")
    case True
    then have lt: "sint i < sint n"
      by (simp add: word_sless_alt)
    have step: "sint (i + 1) = sint i + 1"
      using True by (rule sint_succ_below)
    have "nat (sint n - sint i) = Suc (nat (sint n - sint (i + 1)))"
      using lt step by simp
    then show ?thesis
      using True "1.IH" [OF True]
      by (subst appendInstances.simps) (simp add: replicate_append_same)
  next
    case False
    then have "sint n - sint i \<le> 0"
      by (simp add: word_sless_alt)
    then show ?thesis
      using False by (subst appendInstances.simps) simp
  qed
qed

lemma addResourceList_apply:
  "addResourceList acc m name =
     (case m name of
        None \<Rightarrow> acc name
      | Some q \<Rightarrow> Some ((case acc name of None \<Rightarrow> 0 | Some a \<Rightarrow> a) + q))"
  by (simp add: addResourceList_def split: option.split)

lemma foldl_addResourceList_replicate:
  "foldl addResourceList acc (replicate k m) name =
     (case m name of
        None \<Rightarrow> acc name
      | Some q \<Rightarrow>
          if k = 0 then acc name
          else Some ((case acc name of None \<Rightarrow> 0 | Some a \<Rightarrow> a) + of_nat k * q))"
proof (induction k arbitrary: acc)
  case 0
  show ?case by (simp split: option.split)
next
  case (Suc k)
  have "foldl addResourceList acc (replicate (Suc k) m) name =
          foldl addResourceList (addResourceList acc m) (replicate k m) name"
    by simp
  also have "\<dots> =
      (case m name of
         None \<Rightarrow> addResourceList acc m name
       | Some q \<Rightarrow>
           if k = 0 then addResourceList acc m name
           else Some ((case addResourceList acc m name of None \<Rightarrow> 0 | Some a \<Rightarrow> a)
                      + of_nat k * q))"
    by (rule Suc.IH)
  also have "\<dots> =
      (case m name of
         None \<Rightarrow> acc name
       | Some q \<Rightarrow> Some ((case acc name of None \<Rightarrow> 0 | Some a \<Rightarrow> a) + of_nat (Suc k) * q))"
    by (simp add: addResourceList_apply algebra_simps split: option.split)
  finally show ?case
    by (simp split: option.split)
qed

lemma addResourceList_empty_right: "addResourceList acc Map.empty = acc"
  by (simp add: addResourceList_def)

lemma sumResourceList_replicate:
  "sumResourceList (replicate k m) =
     (\<lambda>name. if k = 0 then None else map_option (\<lambda>q. of_nat k * q) (m name))"
  by (rule ext) (simp add: sumResourceList_def foldl_addResourceList_replicate split: option.split)

lemma sumResourceList_empty_Cons:
  "sumResourceList (Map.empty # list) = sumResourceList list"
  by (simp add: sumResourceList_def addResourceList_empty_right)

lemma getExecutorRequestResource_replicate:
  assumes "Instances (Executor app) = Some n"
  shows "getExecutorRequestResource L app =
           Inr (sumResourceList (replicate (nat (sint n)) (executorMinResource L app)))"
  using assms
  by (simp add: getExecutorRequestResource_def appendInstances_replicate
      sumResourceList_empty_Cons)

lemma floor_numeral_div: "\<lfloor>(numeral a :: rat) / numeral b\<rfloor> = numeral a div numeral b"
  using floor_divide_of_int_eq [of "numeral a" "numeral b", where ?'a = rat] by simp

lemmas exampleLib_simps =
  exampleLib_def exampleParseQuantity_def isDigit_def suffixMultiplier_def
  exampleSprintf_f_def natString.simps digitChar_def Let_def floor_numeral_div

lemma ClientMode_neq_ClusterMode: "ClientMode \<noteq> ClusterMode"
  by (simp add: ClientMode_def ClusterMode_def)

lemma ensureAnnotations_fields:
  "Mode (ensureAnnotations app) = Mode app"
  "Name (ensureAnnotations app) = Name app"
  "Namespace (ensureAnnotations app) = Namespace app"
  "UID (ensureAnnotations app) = UID app"
  by (simp_all add: ensureAnnotations_def Let_def)

lemma ensureAnnotations_lookup:
  "lookupAnnotation (Annotations (Executor (ensureAnnotations app))) k =
     lookupAnnotation (Annotations (Executor app)) k"
  "lookupAnnotation (Annotations (Driver (ensureAnnotations app))) k =
     lookupAnnotation (Annotations (Driver app)) k"
  by (auto simp: ensureAnnotations_def Let_def lookupAnnotation_def split: option.split)

lemma ensureAnnotations_executor_fields:
  "Cores (Executor (ensureAnnotations app)) = Cores (Executor app)"
  "CoreRequest (Executor (ensureAnnotations app)) = CoreRequest (Executor app)"
  "CoreLimit (Executor (ensureAnnotations app)) = CoreLimit (Executor app)"
  "Memory (Executor (ensureAnnotations app)) = Memory (Executor app)"
  "MemoryOverhead (Executor (ensureAnnotations app)) = MemoryOverhead (Executor app)"
  "Instances (Executor (ensureAnnotations app)) = Instances (Executor app)"
  by (simp_all add: ensureAnnotations_def Let_def)

lemma ensureAnnotations_driver_fields:
  "Cores (Driver (ensureAnnotations app)) = Cores (Driver app)"
  "CoreLimit (Driver (ensureAnnotations app)) = CoreLimit (Driver app)"
  "Memory (Driver (ensureAnnotations app)) = Memory (Driver app)"
  "MemoryOverhead (Driver (ensureAnnotations app)) = MemoryOverhead (Driver app)"
  by (simp_all add: ensureAnnotations_def Let_def)

lemma ensureAnnotations_resources:
  "getExecutorRequestResource L (ensureAnnotations app) = getExecutorRequestResource L app"
  "getDriverRequestResource L (ensureAnnotations app) = getDriverRequestResource L app"
  by (simp_all add: getExecutorRequestResource_def executorMinResource_def
      getDriverRequestResource_def ensureAnnotations_executor_fields
      ensureAnnotations_driver_fields)

lemma ensureAnnotations_name:
  "getAppPodGroupName (ensureAnnotations app) = getAppPodGroupName app"
  by (simp add: getAppPodGroupName_def ensureAnnotations_fields)

lemma ensureAnnotations_sync:
  "syncPodGroup v (ensureAnnotations app) k r c = syncPodGroup v app k r c"
proof -
  have "NewControllerRef (ensureAnnotations app) = NewControllerRef app"
    by (simp add: NewControllerRef_def ensureAnnotations_fields fun_eq_iff)
  then show ?thesis
    by (simp add: syncPodGroup_def Let_def ensureAnnotations_fields ensureAnnotations_name
        split: prod.split sum.split)
qed

lemma ensureAnnotations_idem:
  "ensureAnnotations (ensureAnnotations app) = ensureAnnotations app"
  by (simp add: ensureAnnotations_def Let_def)

lemma syncPodGroup_reports_error:
  "fst (syncPodGroup v app k r c) \<noteq> None"
  by (simp add: syncPodGroup_def Let_def split: prod.split sum.split)

subsection \<open>Executor multiplicity\<close>

text \<open>
  C7: for an executor role with instance count \<open>n \<ge> 0\<close>, the aggregate executor request
  vector is the per-instance vector summed \<open>n\<close> times, that is every entry multiplied by
  \<open>n\<close>; with \<open>n = 0\<close> it is the empty vector, and the function returns normally.
\<close>

theorem executor_aggregate_is_instances_fold:
  assumes "Instances (Executor app) = Some n" and "0 <=s n"
  shows "getExecutorRequestResource L app =
           Inr (sumResourceList (replicate (nat (sint n)) (executorMinResource L app)))
       \<and> getExecutorRequestResource L app =
           Inr (\<lambda>name. if n = 0 then None
                        else map_option (\<lambda>q. of_int (sint n) * q) (executorMinResource L app name))
       \<and> (n = 0 \<longrightarrow> getExecutorRequestResource L app = Inr Map.empty)"
proof -
  have nonneg: "0 \<le> sint n"
    using assms(2) by (simp add: word_sle_eq)
  have zero: "nat (sint n) = 0 \<longleftrightarrow> n = 0"
    using nonneg by (auto simp: signed_eq_0_iff)
  have run: "getExecutorRequestResource L app =
               Inr (sumResourceList (replicate (nat (sint n)) (executorMinResource L app)))"
    using assms(1)
    by (simp add: getExecutorRequestResource_def appendInstances_replicate
        sumResourceList_empty_Cons)
  have closed: "sumResourceList (replicate (nat (sint n)) (executorMinResource L app)) =
      (\<lambda>name. if n = 0 then None
               else map_option (\<lambda>q. of_int (sint n) * q) (executorMinResource L app name))"
    using nonneg zero by (simp add: sumResourceList_replicate fun_eq_iff)
  show ?thesis
    using run closed by auto
qed

text \<open>
  Three instances with 1Gi of memory each: the aggregate memory is 3Gi, and no CPU entry
  appears.
\<close>

theorem executor_aggregate_is_instances_fold_witness:
  "Instances (Executor threeExecutors) = Some 3 \<and> (0 :: int32) <=s 3
   \<and> (\<exists>total. getExecutorRequestResource exampleLib threeExecutors = Inr total
        \<and> total ResourceMemory = ParseQuantity exampleLib ''3Gi''
        \<and> total ResourceCPU = None)"
proof -
  have inst: "Instances (Executor threeExecutors) = Some 3"
    by (simp add: threeExecutors_def emptyRole_def)
  have nonneg: "(0 :: int32) <=s 3"
    by (simp add: word_sle_eq)
  have mem: "executorMinResource exampleLib threeExecutors ResourceMemory = Some 1073741824"
    by (simp add: executorMinResource_def threeExecutors_def emptyRole_def exampleLib_simps
        ResourceCPU_def ResourceMemory_def)
  have cpu: "executorMinResource exampleLib threeExecutors ResourceCPU = None"
    by (simp add: executorMinResource_def threeExecutors_def emptyRole_def exampleLib_simps
        ResourceCPU_def ResourceMemory_def)
  have three: "ParseQuantity exampleLib ''3Gi'' = Some 3221225472"
    by (simp add: exampleLib_simps)
  have "getExecutorRequestResource exampleLib threeExecutors =
          Inr (\<lambda>name. if (3 :: int32) = 0 then None
                       else map_option (\<lambda>q. of_int (sint (3 :: int32)) * q)
                              (executorMinResource exampleLib threeExecutors name))"
    using executor_aggregate_is_instances_fold [OF inst nonneg, of exampleLib] by blast
  then show ?thesis
    using inst nonneg mem cpu three by simp
qed

subsection \<open>CPU and memory of one role\<close>

text \<open>
  C2, as the code has it: the CPU entry computed for one role (for the executor, the vector
  of one instance) is the first candidate of the role's chain that is present and parses.
  The executor's chain is the core-request string, then the \<^verbatim>\<open>cores\<close> number formatted
  with six decimals, then the core-limit string; the driver's chain has no core-request
  step and starts at \<^verbatim>\<open>cores\<close>. An executor with coreRequest "2", cores 4 and
  coreLimit "8" resolves to 2.
\<close>

theorem cpu_fallback_chain_per_role:
  "executorMinResource L app ResourceCPU =
     firstPresent [parsed L (CoreRequest (Executor app)),
                   parsed L (formatted L (Cores (Executor app))),
                   parsed L (CoreLimit (Executor app))]
   \<and> getDriverRequestResource L app ResourceCPU =
     firstPresent [parsed L (formatted L (Cores (Driver app))),
                   parsed L (CoreLimit (Driver app))]
   \<and> executorMinResource exampleLib fallbackJob ResourceCPU = Some 2"
proof (intro conjI)
  show "executorMinResource L app ResourceCPU =
     firstPresent [parsed L (CoreRequest (Executor app)),
                   parsed L (formatted L (Cores (Executor app))),
                   parsed L (CoreLimit (Executor app))]"
    using ResourceCPU_neq_ResourceMemory
    by (simp add: executorMinResource_def parsed_def formatted_def Let_def split: option.split)
next
  show "getDriverRequestResource L app ResourceCPU =
     firstPresent [parsed L (formatted L (Cores (Driver app))),
                   parsed L (CoreLimit (Driver app))]"
    using ResourceCPU_neq_ResourceMemory
    by (simp add: getDriverRequestResource_def parsed_def formatted_def Let_def split: option.split)
next
  show "executorMinResource exampleLib fallbackJob ResourceCPU = Some 2"
    by (simp add: executorMinResource_def fallbackJob_def allCpuFields_def emptyRole_def
        sparkPi_def exampleLib_simps ResourceCPU_def ResourceMemory_def)
qed

text \<open>
  C2 as stated fails for the driver: with coreRequest "2", cores 4 and coreLimit "8" on the
  driver role, the driver's CPU entry is 4, not 2, because \<^verbatim>\<open>getDriverRequestResource\<close>
  never reads a core request.
\<close>

theorem driver_ignores_core_request_counterexample:
  "CoreRequest (Driver fallbackJob) = Some ''2'' \<and> Cores (Driver fallbackJob) = Some 4
   \<and> CoreLimit (Driver fallbackJob) = Some ''8''
   \<and> ParseQuantity exampleLib ''2'' = Some 2
   \<and> getDriverRequestResource exampleLib fallbackJob ResourceCPU = Some 4
   \<and> getDriverRequestResource exampleLib fallbackJob ResourceCPU \<noteq> Some 2"
  by (simp add: getDriverRequestResource_def fallbackJob_def allCpuFields_def emptyRole_def
      sparkPi_def exampleLib_simps ResourceCPU_def ResourceMemory_def)

lemma executorMinResource_memory:
  "executorMinResource L app ResourceMemory = memoryRule L (Executor app)"
  using ResourceCPU_neq_ResourceMemory
  by (simp add: executorMinResource_def memoryRule_def parsed_def Let_def split: option.split)

lemma getDriverRequestResource_memory:
  "getDriverRequestResource L app ResourceMemory = memoryRule L (Driver app)"
  using ResourceCPU_neq_ResourceMemory
  by (simp add: getDriverRequestResource_def memoryRule_def parsed_def Let_def split: option.split)

text \<open>
  C8, as the code has it: the memory entry of the driver's request vector is the parsed
  \<^verbatim>\<open>memory\<close> plus the parsed \<^verbatim>\<open>memoryOverhead\<close> when both are there, the parsed
  \<^verbatim>\<open>memory\<close> alone when there is no usable overhead, and absent when there is no usable
  \<^verbatim>\<open>memory\<close>, so that an overhead without memory contributes nothing. The executor's
  figure for one instance follows the same rule, and the memory entry of the executor's
  request vector is that figure multiplied by the instance count \<open>n\<close>; it is absent when
  \<open>n\<close> is not positive or when the rule gives nothing.
\<close>

theorem memory_entry_of_request_vectors:
  assumes "Instances (Executor app) = Some n"
  shows "getDriverRequestResource L app ResourceMemory = memoryRule L (Driver app)
   \<and> executorMinResource L app ResourceMemory = memoryRule L (Executor app)
   \<and> (\<exists>total. getExecutorRequestResource L app = Inr total
         \<and> total ResourceMemory =
             (if 0 <s n then map_option (\<lambda>q. of_int (sint n) * q) (memoryRule L (Executor app))
              else None))
   \<and> (Memory (Driver app) = None \<longrightarrow> getDriverRequestResource L app ResourceMemory = None)
   \<and> (Memory (Executor app) = None \<longrightarrow>
        (\<exists>total. getExecutorRequestResource L app = Inr total \<and> total ResourceMemory = None))"
proof -
  let ?k = "nat (sint n)"
  let ?total = "sumResourceList (replicate ?k (executorMinResource L app))"
  have run: "getExecutorRequestResource L app = Inr ?total"
    using assms by (rule getExecutorRequestResource_replicate)
  have pos: "0 <s n \<longleftrightarrow> 0 < sint n"
    by (simp add: word_sless_alt)
  have entry: "?total ResourceMemory =
      (if 0 <s n then map_option (\<lambda>q. of_int (sint n) * q) (memoryRule L (Executor app))
       else None)"
    by (simp add: sumResourceList_replicate executorMinResource_memory pos)
  have unsetRule: "memoryRule L role = None" if "Memory role = None" for role
    using that by (simp add: memoryRule_def parsed_def)
  have unset: "?total ResourceMemory = None" if "Memory (Executor app) = None"
    using that entry by (simp add: unsetRule)
  show ?thesis
    using run entry unset unsetRule
    by (simp add: getDriverRequestResource_memory executorMinResource_memory)
qed

text \<open>
  Both roles of \<open>overheadOnly\<close> set an overhead of 1Gi and no memory: neither request
  vector has a memory entry.
\<close>

theorem memory_entry_of_request_vectors_witness:
  "Instances (Executor overheadOnly) = Some 1
   \<and> Memory (Executor overheadOnly) = None \<and> Memory (Driver overheadOnly) = None
   \<and> parsed exampleLib (MemoryOverhead (Executor overheadOnly)) = Some 1073741824
   \<and> parsed exampleLib (MemoryOverhead (Driver overheadOnly)) = Some 1073741824
   \<and> getDriverRequestResource exampleLib overheadOnly ResourceMemory = None
   \<and> (\<exists>total. getExecutorRequestResource exampleLib overheadOnly = Inr total
         \<and> total ResourceMemory = None)"
proof -
  have inst: "Instances (Executor overheadOnly) = Some 1"
    by (simp add: overheadOnly_def emptyRole_def)
  have unset: "Memory (Executor overheadOnly) = None" "Memory (Driver overheadOnly) = None"
    by (simp_all add: overheadOnly_def emptyRole_def)
  have overhead:
    "parsed exampleLib (MemoryOverhead (Executor overheadOnly)) = Some 1073741824"
    "parsed exampleLib (MemoryOverhead (Driver overheadOnly)) = Some 1073741824"
    by (simp_all add: overheadOnly_def emptyRole_def parsed_def exampleLib_simps)
  have "(Memory (Driver overheadOnly) = None \<longrightarrow>
           getDriverRequestResource exampleLib overheadOnly ResourceMemory = None)
      \<and> (Memory (Executor overheadOnly) = None \<longrightarrow>
           (\<exists>total. getExecutorRequestResource exampleLib overheadOnly = Inr total
              \<and> total ResourceMemory = None))"
    using memory_entry_of_request_vectors [OF inst, of exampleLib] by blast
  then show ?thesis
    using inst unset overhead by blast
qed

text \<open>
  C8 as stated fails for the executor's request vector: with 1Gi of memory, 512Mi of
  overhead and three instances, its memory entry is three times the sum of the two, not
  the sum.
\<close>

theorem executor_memory_entry_counterexample:
  "parsed exampleLib (Memory (Executor memoryAndOverhead)) = Some 1073741824
   \<and> parsed exampleLib (MemoryOverhead (Executor memoryAndOverhead)) = Some 536870912
   \<and> Instances (Executor memoryAndOverhead) = Some 3
   \<and> getExecutorRequestResource exampleLib memoryAndOverhead =
        Inr (sumResourceList (replicate 3 (executorMinResource exampleLib memoryAndOverhead)))
   \<and> sumResourceList (replicate 3 (executorMinResource exampleLib memoryAndOverhead))
        ResourceMemory = Some 4831838208
   \<and> sumResourceList (replicate 3 (executorMinResource exampleLib memoryAndOverhead))
        ResourceMemory \<noteq> Some (1073741824 + 536870912)"
proof -
  have inst: "Instances (Executor memoryAndOverhead) = Some 3"
    by (simp add: memoryAndOverhead_def emptyRole_def)
  have fields:
    "parsed exampleLib (Memory (Executor memoryAndOverhead)) = Some 1073741824"
    "parsed exampleLib (MemoryOverhead (Executor memoryAndOverhead)) = Some 536870912"
    by (simp_all add: memoryAndOverhead_def emptyRole_def parsed_def exampleLib_simps)
  have run: "getExecutorRequestResource exampleLib memoryAndOverhead =
        Inr (sumResourceList (replicate 3 (executorMinResource exampleLib memoryAndOverhead)))"
    using getExecutorRequestResource_replicate [OF inst, of exampleLib] by simp
  have one: "executorMinResource exampleLib memoryAndOverhead ResourceMemory = Some 1610612736"
    by (simp add: executorMinResource_memory memoryRule_def fields)
  have entry: "sumResourceList (replicate 3 (executorMinResource exampleLib memoryAndOverhead))
        ResourceMemory = Some 4831838208"
    by (simp add: sumResourceList_replicate one)
  show ?thesis
    using inst fields run entry by simp
qed

subsection \<open>The coordinator\<close>

lemmas fakeClient_simps =
  fakeClient_def fakeGet_def fakeCreate_def fakeUpdate_def served_def
  emptyCluster_def clusterWithGroup_def existingGroup_def

lemmas sparkPi_simps =
  sparkPi_def sparkPiClient_def emptyRole_def getAppPodGroupName_def

lemma sparkPi_executor_total:
  "getExecutorRequestResource exampleLib sparkPiClient =
     Inr (sumResourceList [executorMinResource exampleLib sparkPiClient])"
proof -
  have "nat (sint (1 :: int32) - sint (0 :: int32)) = Suc 0"
    by simp
  then show ?thesis
    by (simp add: getExecutorRequestResource_def sparkPi_simps appendInstances_replicate
        sumResourceList_empty_Cons)
qed

lemma syncPodGroup_on_empty_cluster:
  "fst (syncPodGroup fakeClient sparkPiClient 1 r emptyCluster) = Some (FailedToSyncPodGroup None)"
  "requests (snd (syncPodGroup fakeClient sparkPiClient 1 r emptyCluster)) =
     [(GET, ''default'', ''spark-spark-pi-pg''), (CREATE, ''default'', ''spark-spark-pi-pg'')]"
  by (simp_all add: syncPodGroup_def fakeClient_simps sparkPi_simps IsNotFound_def Let_def)

text \<open>
  C4: when the executor's \<^verbatim>\<open>instances\<close> pointer is \<^verbatim>\<open>nil\<close> and the annotation guard
  of the job's mode has not fired, \<^verbatim>\<open>DoBatchSchedulingOnSubmission\<close> panics with a
  nil-pointer dereference in client mode and in cluster mode alike; it returns neither an
  error nor a job, and no request has reached the cluster.
\<close>

theorem nil_instances_panics:
  assumes "Instances (Executor app) = None"
    and "Mode app = ClientMode
           \<and> lookupAnnotation (Annotations (Executor app)) GroupNameAnnotationKey = None
         \<or> Mode app = ClusterMode
           \<and> lookupAnnotation (Annotations (Driver app)) GroupNameAnnotationKey = None"
  shows "DoBatchSchedulingOnSubmission L v app c = (Inl NilPointerDereference, c)"
proof -
  have panic: "getExecutorRequestResource L (ensureAnnotations app) = Inl NilPointerDereference"
    using assms(1)
    by (simp add: getExecutorRequestResource_def ensureAnnotations_executor_fields)
  from assms(2) show ?thesis
  proof
    assume "Mode app = ClientMode
      \<and> lookupAnnotation (Annotations (Executor app)) GroupNameAnnotationKey = None"
    then show ?thesis
      using panic
      by (simp add: DoBatchSchedulingOnSubmission_def syncPodGroupInClientMode_def
          ensureAnnotations_fields ensureAnnotations_lookup)
  next
    assume "Mode app = ClusterMode
      \<and> lookupAnnotation (Annotations (Driver app)) GroupNameAnnotationKey = None"
    then show ?thesis
      using panic ClientMode_neq_ClusterMode
      by (simp add: DoBatchSchedulingOnSubmission_def syncPodGroupInClusterMode_def
          ensureAnnotations_fields ensureAnnotations_lookup)
  qed
qed

text \<open>The job \<open>noInstances\<close> in cluster mode panics before any request is sent.\<close>

theorem nil_instances_panics_witness:
  "Instances (Executor noInstances) = None \<and> Mode noInstances = ClusterMode
   \<and> lookupAnnotation (Annotations (Driver noInstances)) GroupNameAnnotationKey = None
   \<and> fst (DoBatchSchedulingOnSubmission exampleLib fakeClient noInstances emptyCluster) =
        Inl NilPointerDereference
   \<and> requests (snd (DoBatchSchedulingOnSubmission exampleLib fakeClient noInstances emptyCluster))
        = []"
proof -
  have unset: "Instances (Executor noInstances) = None"
    by (simp add: noInstances_def sparkPi_simps)
  have guard: "Mode noInstances = ClusterMode
      \<and> lookupAnnotation (Annotations (Driver noInstances)) GroupNameAnnotationKey = None"
    by (simp add: noInstances_def sparkPi_simps ClusterMode_def lookupAnnotation_def)
  have "DoBatchSchedulingOnSubmission exampleLib fakeClient noInstances emptyCluster =
          (Inl NilPointerDereference, emptyCluster)"
    using guard by (intro nil_instances_panics [OF unset]) simp
  then show ?thesis
    using unset guard by (simp add: emptyCluster_def)
qed

text \<open>
  C5: a job whose executor annotation (client mode) or driver annotation (cluster mode)
  already names a group is returned without error and the cluster state is handed back as
  it was, whatever the client: no request is made, so no second PodGroup is created and
  \<^verbatim>\<open>minMember\<close> and \<^verbatim>\<open>minResources\<close> stay as they are. The same holds when the returned
  job is submitted again.
\<close>

theorem annotated_job_is_returned_untouched:
  assumes "Mode app = ClientMode
           \<and> lookupAnnotation (Annotations (Executor app)) GroupNameAnnotationKey = Some g
         \<or> Mode app = ClusterMode
           \<and> lookupAnnotation (Annotations (Driver app)) GroupNameAnnotationKey = Some g"
  shows "DoBatchSchedulingOnSubmission L v app c = (Inr (Some (ensureAnnotations app), None), c)
       \<and> DoBatchSchedulingOnSubmission L v (ensureAnnotations app) c =
           (Inr (Some (ensureAnnotations app), None), c)"
proof -
  have once: "DoBatchSchedulingOnSubmission L v a c = (Inr (Some (ensureAnnotations a), None), c)"
    if "Mode a = ClientMode
           \<and> lookupAnnotation (Annotations (Executor a)) GroupNameAnnotationKey = Some g
         \<or> Mode a = ClusterMode
           \<and> lookupAnnotation (Annotations (Driver a)) GroupNameAnnotationKey = Some g" for a
    using that ClientMode_neq_ClusterMode
    by (auto simp: DoBatchSchedulingOnSubmission_def syncPodGroupInClientMode_def
        syncPodGroupInClusterMode_def ensureAnnotations_fields ensureAnnotations_lookup)
  have again: "Mode (ensureAnnotations app) = ClientMode
           \<and> lookupAnnotation (Annotations (Executor (ensureAnnotations app))) GroupNameAnnotationKey = Some g
         \<or> Mode (ensureAnnotations app) = ClusterMode
           \<and> lookupAnnotation (Annotations (Driver (ensureAnnotations app))) GroupNameAnnotationKey = Some g"
    using assms by (simp add: ensureAnnotations_fields ensureAnnotations_lookup)
  show ?thesis
    using once [OF assms] once [OF again] by (simp add: ensureAnnotations_idem)
qed

text \<open>
  The annotated job on a cluster that holds its PodGroup: the request log stays empty and
  the stored group keeps its one member.
\<close>

theorem annotated_job_is_returned_untouched_witness:
  "Mode annotatedJob = ClusterMode
   \<and> lookupAnnotation (Annotations (Driver annotatedJob)) GroupNameAnnotationKey =
        Some ''spark-spark-pi-pg''
   \<and> fst (DoBatchSchedulingOnSubmission exampleLib fakeClient annotatedJob clusterWithGroup) =
        Inr (Some (ensureAnnotations annotatedJob), None)
   \<and> requests (snd (DoBatchSchedulingOnSubmission exampleLib fakeClient annotatedJob clusterWithGroup))
        = []
   \<and> map_option MinMember
        (objects (snd (DoBatchSchedulingOnSubmission exampleLib fakeClient annotatedJob clusterWithGroup))
           (''default'', ''spark-spark-pi-pg'')) = Some 1"
proof -
  have guard: "Mode annotatedJob = ClusterMode
      \<and> lookupAnnotation (Annotations (Driver annotatedJob)) GroupNameAnnotationKey =
           Some ''spark-spark-pi-pg''"
    by (simp add: annotatedJob_def sparkPi_simps ClusterMode_def lookupAnnotation_def)
  have "DoBatchSchedulingOnSubmission exampleLib fakeClient annotatedJob clusterWithGroup =
          (Inr (Some (ensureAnnotations annotatedJob), None), clusterWithGroup)"
    using annotated_job_is_returned_untouched
      [of annotatedJob "''spark-spark-pi-pg''" exampleLib fakeClient clusterWithGroup] guard
    by simp
  then show ?thesis
    using guard by (simp add: fakeClient_simps)
qed

text \<open>
  C9: when \<^verbatim>\<open>syncPodGroup\<close> returns an error, \<^verbatim>\<open>DoBatchSchedulingOnSubmission\<close>
  returns that error together with a \<^verbatim>\<open>nil\<close> job: no annotated job comes back, and the
  caller's job is the untouched argument, so a later submission runs the sync again.
\<close>

theorem sync_error_aborts_submission:
  assumes "Mode app = ClientMode
           \<and> lookupAnnotation (Annotations (Executor app)) GroupNameAnnotationKey = None
           \<and> minResources = executorTotal
         \<or> Mode app = ClusterMode
           \<and> lookupAnnotation (Annotations (Driver app)) GroupNameAnnotationKey = None
           \<and> minResources = sumResourceList [executorTotal, getDriverRequestResource L app]"
    and "getExecutorRequestResource L app = Inr executorTotal"
    and "syncPodGroup v app 1 minResources c = (Some err, c')"
  shows "DoBatchSchedulingOnSubmission L v app c = (Inr (None, Some err), c')"
proof -
  from assms(1) show ?thesis
  proof
    assume "Mode app = ClientMode
      \<and> lookupAnnotation (Annotations (Executor app)) GroupNameAnnotationKey = None
      \<and> minResources = executorTotal"
    then show ?thesis
      using assms(2,3)
      by (simp add: DoBatchSchedulingOnSubmission_def syncPodGroupInClientMode_def
          ensureAnnotations_fields ensureAnnotations_lookup ensureAnnotations_resources
          ensureAnnotations_sync)
  next
    assume "Mode app = ClusterMode
      \<and> lookupAnnotation (Annotations (Driver app)) GroupNameAnnotationKey = None
      \<and> minResources = sumResourceList [executorTotal, getDriverRequestResource L app]"
    then show ?thesis
      using assms(2,3) ClientMode_neq_ClusterMode
      by (simp add: DoBatchSchedulingOnSubmission_def syncPodGroupInClusterMode_def
          ensureAnnotations_fields ensureAnnotations_lookup ensureAnnotations_resources
          ensureAnnotations_sync)
  qed
qed

text \<open>The client-mode job on an empty cluster: the sync's error is what the caller gets.\<close>

theorem sync_error_aborts_submission_witness:
  "Mode sparkPiClient = ClientMode
   \<and> lookupAnnotation (Annotations (Executor sparkPiClient)) GroupNameAnnotationKey = None
   \<and> (\<exists>total c'.
        getExecutorRequestResource exampleLib sparkPiClient = Inr total
        \<and> syncPodGroup fakeClient sparkPiClient 1 total emptyCluster =
             (Some (FailedToSyncPodGroup None), c')
        \<and> DoBatchSchedulingOnSubmission exampleLib fakeClient sparkPiClient emptyCluster =
             (Inr (None, Some (FailedToSyncPodGroup None)), c'))"
proof -
  define total where "total = sumResourceList [executorMinResource exampleLib sparkPiClient]"
  define c' where "c' = snd (syncPodGroup fakeClient sparkPiClient 1 total emptyCluster)"
  have guard: "Mode sparkPiClient = ClientMode
      \<and> lookupAnnotation (Annotations (Executor sparkPiClient)) GroupNameAnnotationKey = None"
    by (simp add: sparkPi_simps ClientMode_def lookupAnnotation_def)
  have res: "getExecutorRequestResource exampleLib sparkPiClient = Inr total"
    by (simp add: total_def sparkPi_executor_total)
  have sync: "syncPodGroup fakeClient sparkPiClient 1 total emptyCluster =
      (Some (FailedToSyncPodGroup None), c')"
    using syncPodGroup_on_empty_cluster(1) [of total]
    by (simp add: c'_def prod_eq_iff)
  have "DoBatchSchedulingOnSubmission exampleLib fakeClient sparkPiClient emptyCluster =
      (Inr (None, Some (FailedToSyncPodGroup None)), c')"
    using guard by (intro sync_error_aborts_submission [OF _ res sync]) simp
  then show ?thesis
    using guard res sync by blast
qed

lemma sumResourceList_pair: "sumResourceList [a, b] = plusResources a b"
  by (rule ext)
    (simp add: sumResourceList_def addResourceList_def plusResources_def split: option.split)

lemma getAppPodGroupName_update:
  "getAppPodGroupName (a\<lparr>Executor := e\<rparr>) = getAppPodGroupName a"
  "getAppPodGroupName (a\<lparr>Driver := d\<rparr>) = getAppPodGroupName a"
  by (simp_all add: getAppPodGroupName_def)

lemma syncPodGroupInClusterMode_unfold:
  assumes "lookupAnnotation (Annotations (Driver a)) GroupNameAnnotationKey = None"
    and "getExecutorRequestResource L a = Inr executorTotal"
    and "Annotations (Executor a) = Some me"
    and "Annotations (Driver a) = Some md"
  shows "syncPodGroupInClusterMode L v a c =
     (case syncPodGroup v a 1 (plusResources executorTotal (getDriverRequestResource L a)) c of
        (None, c') \<Rightarrow>
          (Inr (Some (a\<lparr>Executor := stamped (Executor a) (getAppPodGroupName a),
                        Driver := stamped (Driver a) (getAppPodGroupName a)\<rparr>),
                None), c')
      | (Some err, c') \<Rightarrow> (Inr (None, Some err), c'))"
  using assms
  by (simp add: syncPodGroupInClusterMode_def sumResourceList_pair assignAnnotation_def
      stamped_def getAppPodGroupName_update Let_def split: prod.split option.split)

lemma syncPodGroupInClientMode_unfold:
  assumes "lookupAnnotation (Annotations (Executor a)) GroupNameAnnotationKey = None"
    and "getExecutorRequestResource L a = Inr executorTotal"
    and "Annotations (Executor a) = Some me"
  shows "syncPodGroupInClientMode L v a c =
     (case syncPodGroup v a 1 executorTotal c of
        (None, c') \<Rightarrow>
          (Inr (Some (a\<lparr>Executor := stamped (Executor a) (getAppPodGroupName a)\<rparr>), None), c')
      | (Some err, c') \<Rightarrow> (Inr (None, Some err), c'))"
  using assms
  by (simp add: syncPodGroupInClientMode_def assignAnnotation_def
      stamped_def Let_def split: prod.split option.split)

lemma ensureAnnotations_maps:
  "\<exists>me. Annotations (Executor (ensureAnnotations app)) = Some me"
  "\<exists>md. Annotations (Driver (ensureAnnotations app)) = Some md"
  by (auto simp: ensureAnnotations_def Let_def)

lemma DoBatchScheduling_cluster_mode:
  assumes "Mode app = ClusterMode"
    and "lookupAnnotation (Annotations (Driver app)) GroupNameAnnotationKey = None"
    and "getExecutorRequestResource L app = Inr executorTotal"
  shows "DoBatchSchedulingOnSubmission L v app c =
     (case syncPodGroup v app 1 (plusResources executorTotal (getDriverRequestResource L app)) c of
        (None, c') \<Rightarrow>
          (Inr (Some ((ensureAnnotations app)
                  \<lparr>Executor := stamped (Executor (ensureAnnotations app)) (getAppPodGroupName app),
                   Driver := stamped (Driver (ensureAnnotations app)) (getAppPodGroupName app)\<rparr>),
                None), c')
      | (Some err, c') \<Rightarrow> (Inr (None, Some err), c'))"
proof -
  obtain me md where maps: "Annotations (Executor (ensureAnnotations app)) = Some me"
      "Annotations (Driver (ensureAnnotations app)) = Some md"
    using ensureAnnotations_maps by blast
  have guard: "lookupAnnotation (Annotations (Driver (ensureAnnotations app))) GroupNameAnnotationKey = None"
    using assms(2) by (simp add: ensureAnnotations_lookup)
  have res: "getExecutorRequestResource L (ensureAnnotations app) = Inr executorTotal"
    using assms(3) by (simp add: ensureAnnotations_resources)
  have "DoBatchSchedulingOnSubmission L v app c =
          syncPodGroupInClusterMode L v (ensureAnnotations app) c"
    using assms(1) ClientMode_neq_ClusterMode
    by (simp add: DoBatchSchedulingOnSubmission_def ensureAnnotations_fields)
  also have "\<dots> =
     (case syncPodGroup v (ensureAnnotations app) 1
             (plusResources executorTotal (getDriverRequestResource L (ensureAnnotations app))) c of
        (None, c') \<Rightarrow>
          (Inr (Some ((ensureAnnotations app)
                  \<lparr>Executor := stamped (Executor (ensureAnnotations app))
                                 (getAppPodGroupName (ensureAnnotations app)),
                   Driver := stamped (Driver (ensureAnnotations app))
                               (getAppPodGroupName (ensureAnnotations app))\<rparr>),
                None), c')
      | (Some err, c') \<Rightarrow> (Inr (None, Some err), c'))"
    by (rule syncPodGroupInClusterMode_unfold [OF guard res maps])
  finally show ?thesis
    unfolding ensureAnnotations_sync ensureAnnotations_resources ensureAnnotations_name .
qed

lemma DoBatchScheduling_client_mode:
  assumes "Mode app = ClientMode"
    and "lookupAnnotation (Annotations (Executor app)) GroupNameAnnotationKey = None"
    and "getExecutorRequestResource L app = Inr executorTotal"
  shows "DoBatchSchedulingOnSubmission L v app c =
     (case syncPodGroup v app 1 executorTotal c of
        (None, c') \<Rightarrow>
          (Inr (Some ((ensureAnnotations app)
                  \<lparr>Executor := stamped (Executor (ensureAnnotations app)) (getAppPodGroupName app)\<rparr>),
                None), c')
      | (Some err, c') \<Rightarrow> (Inr (None, Some err), c'))"
proof -
  obtain me where maps: "Annotations (Executor (ensureAnnotations app)) = Some me"
    using ensureAnnotations_maps by blast
  have guard: "lookupAnnotation (Annotations (Executor (ensureAnnotations app))) GroupNameAnnotationKey = None"
    using assms(2) by (simp add: ensureAnnotations_lookup)
  have res: "getExecutorRequestResource L (ensureAnnotations app) = Inr executorTotal"
    using assms(3) by (simp add: ensureAnnotations_resources)
  have "DoBatchSchedulingOnSubmission L v app c =
          syncPodGroupInClientMode L v (ensureAnnotations app) c"
    using assms(1)
    by (simp add: DoBatchSchedulingOnSubmission_def ensureAnnotations_fields)
  also have "\<dots> =
     (case syncPodGroup v (ensureAnnotations app) 1 executorTotal c of
        (None, c') \<Rightarrow>
          (Inr (Some ((ensureAnnotations app)
                  \<lparr>Executor := stamped (Executor (ensureAnnotations app))
                                 (getAppPodGroupName (ensureAnnotations app))\<rparr>),
                None), c')
      | (Some err, c') \<Rightarrow> (Inr (None, Some err), c'))"
    by (rule syncPodGroupInClientMode_unfold [OF guard res maps])
  finally show ?thesis
    unfolding ensureAnnotations_sync ensureAnnotations_name .
qed

text \<open>
  C6 asks that in cluster mode, for a job without a driver group annotation, the PodGroup
  is synced with \<^verbatim>\<open>minMember\<close> 1 whatever the executor instance count and with
  \<^verbatim>\<open>minResources\<close> the sum of the executor's aggregate vector and the driver's vector,
  and that on success both the driver and the executor annotation carry the group name.
  The sizing is what the code does, for every client: the cluster is left as the sync with
  size 1 and that sum leaves it, a missing group is created with exactly these, and a group
  of another size is updated to size 1. The stamping never happens: whatever the client
  answers, also when the Create or the Update succeeds, the call returns a \<^verbatim>\<open>nil\<close> job
  and an error, because \<^verbatim>\<open>syncPodGroup\<close> never returns \<^verbatim>\<open>nil\<close>.
\<close>

theorem cluster_mode_sizing_never_stamps:
  assumes "Mode app = ClusterMode"
    and "lookupAnnotation (Annotations (Driver app)) GroupNameAnnotationKey = None"
    and "getExecutorRequestResource L app = Inr executorTotal"
  shows "snd (DoBatchSchedulingOnSubmission L v app c) =
          snd (syncPodGroup v app 1
                 (plusResources executorTotal (getDriverRequestResource L app)) c)
   \<and> (Get v (Namespace app) (getAppPodGroupName app) c = (Inl NotFound, c1) \<longrightarrow>
        snd (DoBatchSchedulingOnSubmission L v app c) =
          snd (Create v (Namespace app)
                 \<lparr>pgNamespace = Namespace app, pgName = getAppPodGroupName app,
                  pgOwnerReferences = [NewControllerRef app SchemeGroupVersion ''SparkApplication''],
                  MinMember = 1,
                  MinResources =
                    Some (plusResources executorTotal (getDriverRequestResource L app))\<rparr> c1))
   \<and> (Get v (Namespace app) (getAppPodGroupName app) c = (Inr pg, c1) \<and> MinMember pg \<noteq> 1 \<longrightarrow>
        snd (DoBatchSchedulingOnSubmission L v app c) =
          snd (Update v (Namespace app) (pg\<lparr>MinMember := 1\<rparr>) c1))
   \<and> (\<exists>err. fst (DoBatchSchedulingOnSubmission L v app c) = Inr (None, Some err))"
proof -
  let ?total = "plusResources executorTotal (getDriverRequestResource L app)"
  have run: "DoBatchSchedulingOnSubmission L v app c =
     (case syncPodGroup v app 1 ?total c of
        (None, c') \<Rightarrow>
          (Inr (Some ((ensureAnnotations app)
                  \<lparr>Executor := stamped (Executor (ensureAnnotations app)) (getAppPodGroupName app),
                   Driver := stamped (Driver (ensureAnnotations app)) (getAppPodGroupName app)\<rparr>),
                None), c')
      | (Some err, c') \<Rightarrow> (Inr (None, Some err), c'))"
    by (rule DoBatchScheduling_cluster_mode [OF assms])
  have state: "snd (DoBatchSchedulingOnSubmission L v app c) = snd (syncPodGroup v app 1 ?total c)"
    unfolding run by (simp split: prod.split option.split)
  obtain err c' where failed: "syncPodGroup v app 1 ?total c = (Some err, c')"
    using syncPodGroup_reports_error [of v app 1 ?total c]
    by (cases "syncPodGroup v app 1 ?total c") auto
  have result: "fst (DoBatchSchedulingOnSubmission L v app c) = Inr (None, Some err)"
    unfolding run by (simp add: failed)
  have created: "snd (syncPodGroup v app 1 ?total c) =
          snd (Create v (Namespace app)
                 \<lparr>pgNamespace = Namespace app, pgName = getAppPodGroupName app,
                  pgOwnerReferences = [NewControllerRef app SchemeGroupVersion ''SparkApplication''],
                  MinMember = 1, MinResources = Some ?total\<rparr> c1)"
    if "Get v (Namespace app) (getAppPodGroupName app) c = (Inl NotFound, c1)"
    using that by (simp add: syncPodGroup_def IsNotFound_def split: prod.split)
  have updated: "snd (syncPodGroup v app 1 ?total c) =
          snd (Update v (Namespace app) (pg\<lparr>MinMember := 1\<rparr>) c1)"
    if "Get v (Namespace app) (getAppPodGroupName app) c = (Inr pg, c1)" "MinMember pg \<noteq> 1"
    using that by (simp add: syncPodGroup_def split: prod.split)
  show ?thesis
    using state created updated result by auto
qed

text \<open>
  Three executors of 1Gi and the driver of \<open>sparkPi\<close> on an empty cluster: the Create
  succeeds and stores a PodGroup of one member with 3Gi plus the driver's memory and the
  driver's CPU, yet the caller gets a \<^verbatim>\<open>nil\<close> job and the error.
\<close>

theorem cluster_mode_sizing_never_stamps_witness:
  "Mode threeExecutors = ClusterMode
   \<and> lookupAnnotation (Annotations (Driver threeExecutors)) GroupNameAnnotationKey = None
   \<and> Instances (Executor threeExecutors) = Some 3
   \<and> (\<exists>executorTotal total.
        getExecutorRequestResource exampleLib threeExecutors = Inr executorTotal
        \<and> executorTotal ResourceMemory = Some 3221225472
        \<and> objects (snd (DoBatchSchedulingOnSubmission exampleLib fakeClient threeExecutors emptyCluster))
             (''default'', ''spark-spark-pi-pg'') =
            Some \<lparr>pgNamespace = ''default'', pgName = ''spark-spark-pi-pg'',
                  pgOwnerReferences =
                    [NewControllerRef threeExecutors SchemeGroupVersion ''SparkApplication''],
                  MinMember = 1, MinResources = Some total\<rparr>
        \<and> total ResourceMemory = Some (3221225472 + 64 / 125)
        \<and> total ResourceCPU = Some (1 / 10))
   \<and> requests (snd (DoBatchSchedulingOnSubmission exampleLib fakeClient threeExecutors emptyCluster)) =
        [(GET, ''default'', ''spark-spark-pi-pg''), (CREATE, ''default'', ''spark-spark-pi-pg'')]
   \<and> fst (DoBatchSchedulingOnSubmission exampleLib fakeClient threeExecutors emptyCluster) =
        Inr (None, Some (FailedToSyncPodGroup None))"
proof -
  define executorTotal where
    "executorTotal = sumResourceList (replicate 3 (executorMinResource exampleLib threeExecutors))"
  define total where
    "total = plusResources executorTotal (getDriverRequestResource exampleLib threeExecutors)"
  let ?c1 = "served GET ''default'' ''spark-spark-pi-pg'' emptyCluster"
  let ?run = "DoBatchSchedulingOnSubmission exampleLib fakeClient threeExecutors emptyCluster"
  have mode: "Mode threeExecutors = ClusterMode"
    by (simp add: threeExecutors_def sparkPi_simps ClusterMode_def)
  have guard: "lookupAnnotation (Annotations (Driver threeExecutors)) GroupNameAnnotationKey = None"
    by (simp add: threeExecutors_def sparkPi_simps lookupAnnotation_def)
  have inst: "Instances (Executor threeExecutors) = Some 3"
    by (simp add: threeExecutors_def sparkPi_simps)
  have res: "getExecutorRequestResource exampleLib threeExecutors = Inr executorTotal"
    using getExecutorRequestResource_replicate [OF inst, of exampleLib]
    by (simp add: executorTotal_def)
  have executorMemory: "executorTotal ResourceMemory = Some 3221225472"
    by (simp add: executorTotal_def sumResourceList_replicate executorMinResource_def
        threeExecutors_def sparkPi_simps exampleLib_simps ResourceCPU_def ResourceMemory_def)
  have executorCpu: "executorTotal ResourceCPU = None"
    by (simp add: executorTotal_def sumResourceList_replicate executorMinResource_def
        threeExecutors_def sparkPi_simps exampleLib_simps ResourceCPU_def ResourceMemory_def)
  have driverMemory:
    "getDriverRequestResource exampleLib threeExecutors ResourceMemory = Some (64 / 125)"
    by (simp add: getDriverRequestResource_def threeExecutors_def sparkPi_simps exampleLib_simps
        ResourceCPU_def ResourceMemory_def)
  have driverCpu:
    "getDriverRequestResource exampleLib threeExecutors ResourceCPU = Some (1 / 10)"
    by (simp add: getDriverRequestResource_def threeExecutors_def sparkPi_simps exampleLib_simps
        ResourceCPU_def ResourceMemory_def)
  have fetched:
    "Get fakeClient (Namespace threeExecutors) (getAppPodGroupName threeExecutors) emptyCluster =
       (Inl NotFound, ?c1)"
    by (simp add: fakeClient_def fakeGet_def emptyCluster_def threeExecutors_def sparkPi_simps)
  note sizing = cluster_mode_sizing_never_stamps [OF mode guard res, of fakeClient emptyCluster ?c1]
  have state: "snd ?run =
          snd (Create fakeClient (Namespace threeExecutors)
                 \<lparr>pgNamespace = Namespace threeExecutors,
                  pgName = getAppPodGroupName threeExecutors,
                  pgOwnerReferences =
                    [NewControllerRef threeExecutors SchemeGroupVersion ''SparkApplication''],
                  MinMember = 1, MinResources = Some total\<rparr> ?c1)"
    using sizing fetched unfolding total_def by blast
  have stored:
    "objects (snd ?run) (''default'', ''spark-spark-pi-pg'') =
     Some \<lparr>pgNamespace = ''default'', pgName = ''spark-spark-pi-pg'',
           pgOwnerReferences =
             [NewControllerRef threeExecutors SchemeGroupVersion ''SparkApplication''],
           MinMember = 1, MinResources = Some total\<rparr>"
    unfolding state
    by (simp add: fakeClient_def fakeCreate_def served_def emptyCluster_def threeExecutors_def
        sparkPi_simps Let_def)
  have log: "requests (snd ?run) =
      [(GET, ''default'', ''spark-spark-pi-pg''), (CREATE, ''default'', ''spark-spark-pi-pg'')]"
    unfolding state
    by (simp add: fakeClient_def fakeCreate_def served_def emptyCluster_def threeExecutors_def
        sparkPi_simps Let_def)
  have synced: "fst (syncPodGroup fakeClient threeExecutors 1 total emptyCluster) =
      Some (FailedToSyncPodGroup None)"
    by (simp add: syncPodGroup_def fakeClient_simps threeExecutors_def sparkPi_simps
        IsNotFound_def Let_def)
  have result: "fst ?run = Inr (None, Some (FailedToSyncPodGroup None))"
    unfolding DoBatchScheduling_cluster_mode [OF mode guard res]
    using synced unfolding total_def
    by (auto split: prod.split option.split)
  have totalMemory: "total ResourceMemory = Some (3221225472 + 64 / 125)"
    by (simp add: total_def plusResources_def executorMemory driverMemory)
  have totalCpu: "total ResourceCPU = Some (1 / 10)"
    by (simp add: total_def plusResources_def executorCpu driverCpu)
  show ?thesis
    using mode guard inst res executorMemory stored totalMemory totalCpu log result by blast
qed

subsection \<open>What a sync returns\<close>

lemma syncPodGroup_fake_found_matching:
  "fst (syncPodGroup fakeClient sparkPiClient 1 r clusterWithGroup) = Some (FailedToSyncPodGroup None)"
  "requests (snd (syncPodGroup fakeClient sparkPiClient 1 r clusterWithGroup)) =
     [(GET, ''default'', ''spark-spark-pi-pg'')]"
  by (simp_all add: syncPodGroup_def fakeClient_simps sparkPi_simps IsNotFound_def Let_def)

lemma syncPodGroup_fake_created:
  "objects (snd (syncPodGroup fakeClient sparkPiClient 1 r emptyCluster))
     (''default'', ''spark-spark-pi-pg'') \<noteq> None"
  by (simp add: syncPodGroup_def fakeClient_simps sparkPi_simps IsNotFound_def Let_def)

text \<open>
  C1 asks that a sync of a job whose PodGroup already exists with the requested
  \<^verbatim>\<open>minMember\<close> writes nothing and returns no error, so that the job comes back with its
  annotation stamped, and that a sync whose create or update succeeds returns no error.
  On the client-mode job \<open>sparkPiClient\<close> and a cluster holding its PodGroup with one
  member, \<^verbatim>\<open>syncPodGroup\<close> only sends the Get, yet returns the error built by its last
  statement, and \<^verbatim>\<open>DoBatchSchedulingOnSubmission\<close> returns a \<^verbatim>\<open>nil\<close> job with that
  error; on an empty cluster the create succeeds and the same error is returned.
\<close>

theorem matching_group_still_reports_error:
  "map_option MinMember
     (objects clusterWithGroup (Namespace sparkPiClient, getAppPodGroupName sparkPiClient)) = Some 1
   \<and> fst (syncPodGroup fakeClient sparkPiClient 1 Map.empty clusterWithGroup) =
        Some (FailedToSyncPodGroup None)
   \<and> requests (snd (syncPodGroup fakeClient sparkPiClient 1 Map.empty clusterWithGroup)) =
        [(GET, ''default'', ''spark-spark-pi-pg'')]
   \<and> fst (DoBatchSchedulingOnSubmission exampleLib fakeClient sparkPiClient clusterWithGroup) =
        Inr (None, Some (FailedToSyncPodGroup None))
   \<and> fst (syncPodGroup fakeClient sparkPiClient 1 Map.empty emptyCluster) =
        Some (FailedToSyncPodGroup None)
   \<and> objects (snd (syncPodGroup fakeClient sparkPiClient 1 Map.empty emptyCluster))
        (''default'', ''spark-spark-pi-pg'') \<noteq> None"
proof -
  have stored: "map_option MinMember
     (objects clusterWithGroup (Namespace sparkPiClient, getAppPodGroupName sparkPiClient)) = Some 1"
    by (simp add: fakeClient_simps sparkPi_simps)
  have guard: "lookupAnnotation (Annotations (Executor sparkPiClient)) GroupNameAnnotationKey = None"
    by (simp add: sparkPi_simps lookupAnnotation_def)
  have mode: "Mode sparkPiClient = ClientMode"
    by (simp add: sparkPi_simps ClientMode_def)
  have "fst (DoBatchSchedulingOnSubmission exampleLib fakeClient sparkPiClient clusterWithGroup) =
        Inr (None, Some (FailedToSyncPodGroup None))"
    unfolding DoBatchScheduling_client_mode [OF mode guard sparkPi_executor_total]
    using syncPodGroup_fake_found_matching(1)
      [of "sumResourceList [executorMinResource exampleLib sparkPiClient]"]
    by (auto split: prod.split option.split)
  then show ?thesis
    using stored syncPodGroup_fake_found_matching syncPodGroup_on_empty_cluster(1)
      syncPodGroup_fake_created
    by simp
qed

text \<open>
  C3 as stated fails: a rival submission creates the PodGroup (with five members) between
  the Get and the Create. The sync sends Get and Create and nothing more, reports an error,
  and leaves the rival's five members; had the group been found, it would have sent Get and
  Update and left one member.
\<close>

theorem create_conflict_counterexample:
  "fst (Get fakeClient ''default'' ''spark-spark-pi-pg'' racingCluster) = Inl NotFound
   \<and> requests (snd (syncPodGroup fakeClient sparkPi 1 Map.empty racingCluster)) =
        [(GET, ''default'', ''spark-spark-pi-pg''), (CREATE, ''default'', ''spark-spark-pi-pg'')]
   \<and> map_option MinMember
        (objects (snd (syncPodGroup fakeClient sparkPi 1 Map.empty racingCluster))
           (''default'', ''spark-spark-pi-pg'')) = Some 5
   \<and> fst (syncPodGroup fakeClient sparkPi 1 Map.empty racingCluster) \<noteq> None
   \<and> requests (snd (syncPodGroup fakeClient sparkPi 1 Map.empty clusterWithRival)) =
        [(GET, ''default'', ''spark-spark-pi-pg''), (UPDATE, ''default'', ''spark-spark-pi-pg'')]
   \<and> map_option MinMember
        (objects (snd (syncPodGroup fakeClient sparkPi 1 Map.empty clusterWithRival))
           (''default'', ''spark-spark-pi-pg'')) = Some 1"
  by (simp add: syncPodGroup_def fakeClient_simps racingCluster_def clusterWithRival_def
      rivalGroup_def sparkPi_simps IsNotFound_def Let_def)

text \<open>
  C3, as the code has it: when the Get reports not-found and the Create is refused because
  the PodGroup already exists, \<^verbatim>\<open>syncPodGroup\<close> does not treat the conflict apart and
  does not retry as an update: the cluster is left as the refused Create left it, and the
  call reports an error.
\<close>

theorem create_conflict_is_not_retried:
  assumes "Get v (Namespace app) (getAppPodGroupName app) c = (Inl NotFound, c1)"
    and "Create v (Namespace app)
           \<lparr>pgNamespace = Namespace app, pgName = getAppPodGroupName app,
            pgOwnerReferences = [NewControllerRef app SchemeGroupVersion ''SparkApplication''],
            MinMember = k, MinResources = Some r\<rparr> c1 = (Inl AlreadyExists, c2)"
  shows "snd (syncPodGroup v app k r c) = c2 \<and> fst (syncPodGroup v app k r c) \<noteq> None"
  using assms by (simp add: syncPodGroup_def IsNotFound_def)

text \<open>The racing cluster: the log holds the Get and the refused Create only.\<close>

theorem create_conflict_is_not_retried_witness:
  "Get fakeClient (Namespace sparkPi) (getAppPodGroupName sparkPi) racingCluster =
     (Inl NotFound, served GET ''default'' ''spark-spark-pi-pg'' racingCluster)
   \<and> Create fakeClient (Namespace sparkPi)
        \<lparr>pgNamespace = Namespace sparkPi, pgName = getAppPodGroupName sparkPi,
         pgOwnerReferences = [NewControllerRef sparkPi SchemeGroupVersion ''SparkApplication''],
         MinMember = 1, MinResources = Some Map.empty\<rparr>
        (served GET ''default'' ''spark-spark-pi-pg'' racingCluster) =
     (Inl AlreadyExists,
      served CREATE ''default'' ''spark-spark-pi-pg''
        (served GET ''default'' ''spark-spark-pi-pg'' racingCluster))
   \<and> snd (syncPodGroup fakeClient sparkPi 1 Map.empty racingCluster) =
       served CREATE ''default'' ''spark-spark-pi-pg''
         (served GET ''default'' ''spark-spark-pi-pg'' racingCluster)
   \<and> fst (syncPodGroup fakeClient sparkPi 1 Map.empty racingCluster) \<noteq> None
   \<and> requests (served CREATE ''default'' ''spark-spark-pi-pg''
         (served GET ''default'' ''spark-spark-pi-pg'' racingCluster)) =
       [(GET, ''default'', ''spark-spark-pi-pg''), (CREATE, ''default'', ''spark-spark-pi-pg'')]"
proof -
  let ?c1 = "served GET ''default'' ''spark-spark-pi-pg'' racingCluster"
  let ?c2 = "served CREATE ''default'' ''spark-spark-pi-pg'' ?c1"
  have fetched: "Get fakeClient (Namespace sparkPi) (getAppPodGroupName sparkPi) racingCluster =
      (Inl NotFound, ?c1)"
    by (simp add: fakeClient_def fakeGet_def racingCluster_def emptyCluster_def sparkPi_simps)
  have present: "objects ?c1 (''default'', ''spark-spark-pi-pg'') = Some rivalGroup"
    by (simp add: served_def racingCluster_def emptyCluster_def rivalGroup_def existingGroup_def
        Let_def)
  have refused: "Create fakeClient (Namespace sparkPi)
        \<lparr>pgNamespace = Namespace sparkPi, pgName = getAppPodGroupName sparkPi,
         pgOwnerReferences = [NewControllerRef sparkPi SchemeGroupVersion ''SparkApplication''],
         MinMember = 1, MinResources = Some Map.empty\<rparr> ?c1 = (Inl AlreadyExists, ?c2)"
    using present by (simp add: fakeClient_def fakeCreate_def sparkPi_simps)
  have log: "requests ?c2 =
      [(GET, ''default'', ''spark-spark-pi-pg''), (CREATE, ''default'', ''spark-spark-pi-pg'')]"
    by (simp add: served_def racingCluster_def emptyCluster_def Let_def split: list.split)
  show ?thesis
    using create_conflict_is_not_retried [OF fetched refused] fetched refused log by simp
qed

subsection \<open>Owner references of a patched pod\<close>

text \<open>
  C10: the patch sequence appends an owner reference to the job to the pod's owner
  references and replaces none: the list grows by one, a pod without references ends with
  exactly the job's, and a pod with one reference ends with that one followed by the job's.
\<close>

theorem owner_reference_is_appended:
  "podOwnerReferences (getModifiedPod pod app) = podOwnerReferences pod @ [jobOwnerReference app]
   \<and> length (podOwnerReferences (getModifiedPod pod app)) = Suc (length (podOwnerReferences pod))
   \<and> (podOwnerReferences pod = [] \<longrightarrow>
        podOwnerReferences (getModifiedPod pod app) = [jobOwnerReference app])
   \<and> (podOwnerReferences pod = [first] \<longrightarrow>
        podOwnerReferences (getModifiedPod pod app) = [first, jobOwnerReference app])"
  by (simp add: getModifiedPod_def patchSparkPod_def addOwnerReference_def
      applyPatchOperation_def)

text \<open>
  The two steps of \<^verbatim>\<open>TestPatchSparkPod_OwnerReference\<close>: one reference after patching the
  bare pod, two after patching the pod that already has \<^verbatim>\<open>owner-reference1\<close>.
\<close>

theorem owner_reference_is_appended_witness:
  "podOwnerReferences testPod = []
   \<and> length (podOwnerReferences (getModifiedPod testPod testApp)) = 1
   \<and> podOwnerReferences (testPod\<lparr>podOwnerReferences := podOwnerReferences testPod @ [ownerReference1]\<rparr>)
       = [ownerReference1]
   \<and> podOwnerReferences
        (getModifiedPod (testPod\<lparr>podOwnerReferences := podOwnerReferences testPod @ [ownerReference1]\<rparr>)
           testApp) = [ownerReference1, jobOwnerReference testApp]
   \<and> length (podOwnerReferences
        (getModifiedPod (testPod\<lparr>podOwnerReferences := podOwnerReferences testPod @ [ownerReference1]\<rparr>)
           testApp)) = 2"
proof -
  let ?pod1 = "testPod\<lparr>podOwnerReferences := podOwnerReferences testPod @ [ownerReference1]\<rparr>"
  have none: "podOwnerReferences testPod = []"
    by (simp add: testPod_def)
  have one: "podOwnerReferences ?pod1 = [ownerReference1]"
    by (simp add: testPod_def)
  show ?thesis
    using owner_reference_is_appended [of testPod testApp ownerReference1]
      owner_reference_is_appended [of ?pod1 testApp ownerReference1] none one
    by simp
qed

end
